theory Spec2Isabelle
  imports Main "HOL-Library.AList"
begin

section \<open>The Preset class of colr (src/colr/preset.py)\<close>

text \<open>
  A shallow embedding of the class \<open>Preset\<close>. The two names the module imports from
  \<open>.colr\<close> (the table \<open>codes\<close> and the class \<open>Colr\<close>) are not part of the file; every
  function that uses them takes them as a parameter, so each theorem below holds for any
  table and any renderer.
\<close>

subsection \<open>Values\<close>

text \<open>
  The values a slot can hold: \<open>None\<close>, a string, an integer, or a tuple of such values
  (an RGB triple). On these Python's \<open>==\<close> is structural. Each of them can be hashed, so
  each can be a key of a dict; a list, which cannot, is not among them.
\<close>

datatype pyval = PNone | PStr string | PInt int | PTuple "pyval list"

text \<open>An instance: the three slots of \<open>__slots__\<close>.\<close>

record preset =
  fore :: pyval
  back' :: pyval
  style :: pyval

text \<open>The right operand of a comparison is any object: a Preset or another value.\<close>

datatype pyobj = Obj_Preset preset | Obj_Val pyval

text \<open>
  Exceptions. \<open>TypeError\<close> carries the operands it complains about, \<open>ValueError\<close> the
  rejected \<open>codetype\<close>; \<open>InvalidColr\<close> and \<open>InvalidStyle\<close> are raised by \<open>Colr\<close> only.
\<close>

datatype error =
    TypeError "pyobj list"
  | ValueError pyval
  | InvalidColr pyval
  | InvalidStyle pyval

subsection \<open>The imported names\<close>

text \<open>
  \<open>codes\<close> is a dict of dicts; \<open>codes env t v\<close> stands for \<open>codes[t].get(v, None)\<close>, with
  \<open>None\<close> when the key is missing. \<open>Colr env text fore back style\<close> stands for the
  constructor call \<open>Colr(text, fore=.., back=.., style=..)\<close>: it raises or gives an
  instance, which is represented by the text \<open>str()\<close> gives for it.
\<close>

record collab =
  codes :: "pyval \<Rightarrow> pyval \<Rightarrow> string option"
  Colr :: "pyval \<Rightarrow> pyval \<Rightarrow> pyval \<Rightarrow> pyval \<Rightarrow> error + string"

text \<open>Every use of an imported name is recorded, in the order of the calls.\<close>

datatype event =
    Codes_get pyval pyval
  | Colr_call pyval pyval pyval pyval

subsection \<open>Built-in operations\<close>

text \<open>\<open>a == b\<close> on values; a tuple is equal to a tuple of the same length, item by item.\<close>

fun py_eq :: "pyval \<Rightarrow> pyval \<Rightarrow> bool"
  and py_eq_seq :: "pyval list \<Rightarrow> pyval list \<Rightarrow> bool" where
  "py_eq PNone PNone = True"
| "py_eq (PStr a) (PStr b) = (a = b)"
| "py_eq (PInt a) (PInt b) = (a = b)"
| "py_eq (PTuple xs) (PTuple ys) = py_eq_seq xs ys"
| "py_eq _ _ = False"
| "py_eq_seq [] [] = True"
| "py_eq_seq (x # xs) (y # ys) = (if py_eq x y then py_eq_seq xs ys else False)"
| "py_eq_seq _ _ = False"

text \<open>\<open>a < b\<close> on strings: by code point, a proper prefix first.\<close>

fun str_lt :: "string \<Rightarrow> string \<Rightarrow> bool" where
  "str_lt [] [] = False"
| "str_lt [] (y # ys) = True"
| "str_lt (x # xs) [] = False"
| "str_lt (x # xs) (y # ys) =
     (if x = y then str_lt xs ys else (of_char x :: nat) < of_char y)"

text \<open>
  \<open>a < b\<close> on values. Integers and strings are ordered among themselves, tuples by
  their first pair of unequal items (then by length); every other pair of operands,
  \<open>None\<close> included, raises \<open>TypeError\<close>.
\<close>

fun py_lt :: "pyval \<Rightarrow> pyval \<Rightarrow> error + bool"
  and py_lt_seq :: "pyval list \<Rightarrow> pyval list \<Rightarrow> error + bool" where
  "py_lt (PInt a) (PInt b) = Inr (a < b)"
| "py_lt (PStr a) (PStr b) = Inr (str_lt a b)"
| "py_lt (PTuple xs) (PTuple ys) = py_lt_seq xs ys"
| "py_lt a b = Inl (TypeError [Obj_Val a, Obj_Val b])"
| "py_lt_seq [] [] = Inr False"
| "py_lt_seq [] (y # ys) = Inr True"
| "py_lt_seq (x # xs) [] = Inr False"
| "py_lt_seq (x # xs) (y # ys) = (if py_eq x y then py_lt_seq xs ys else py_lt x y)"

text \<open>\<open>''.join(xs)\<close>: every item has to be a string.\<close>

fun str_join :: "pyval list \<Rightarrow> error + string" where
  "str_join [] = Inr []"
| "str_join (PStr s # xs) =
     (case str_join xs of Inl e \<Rightarrow> Inl e | Inr r \<Rightarrow> Inr (s @ r))"
| "str_join (v # xs) = Inl (TypeError [Obj_Val v])"

text \<open>
  A dict as an association list in insertion order. \<open>d[k] = v\<close> keeps the place of a key
  that is there and appends a new one; \<open>d.update(e)\<close> stores the items of \<open>e\<close> in order.
\<close>

type_synonym dict = "(string \<times> pyval) list"

definition dict_update :: "dict \<Rightarrow> dict \<Rightarrow> dict" where
  "dict_update d e = fold (\<lambda>(k, v) acc. AList.update k v acc) e d"

text \<open>A keyword argument taken from \<open>**d\<close>, with the parameter's default \<open>None\<close>.\<close>

definition kwarg :: "dict \<Rightarrow> string \<Rightarrow> pyval" where
  "kwarg d k = (case map_of d k of None \<Rightarrow> PNone | Some v \<Rightarrow> v)"

subsection \<open>Objects\<close>

text \<open>
  The store of Preset instances: a reference is an index, and a constructor call appends.
\<close>

type_synonym ref = nat
type_synonym heap = "preset list"

text \<open>\<open>Preset(fore, back, style)\<close>: a new instance whose slots \<open>__init__\<close> sets.\<close>

definition Preset_init :: "pyval \<Rightarrow> pyval \<Rightarrow> pyval \<Rightarrow> preset" where
  "Preset_init f b s = \<lparr>fore = f, back' = b, style = s\<rparr>"

definition Preset_new :: "heap \<Rightarrow> pyval \<Rightarrow> pyval \<Rightarrow> pyval \<Rightarrow> ref \<times> heap" where
  "Preset_new h f b s = (length h, h @ [Preset_init f b s])"

text \<open>
  \<open>getattr(self, name, default)\<close> for a string \<open>name\<close>: the slot of that name, and the
  default for a name that is no slot.
\<close>

definition getattr_p :: "preset \<Rightarrow> string \<Rightarrow> pyval \<Rightarrow> pyval" where
  "getattr_p p name dflt =
     (if name = ''fore'' then fore p
      else if name = ''back'' then back' p
      else if name = ''style'' then style p
      else dflt)"

subsection \<open>The methods\<close>

text \<open>\<open>__call__\<close>: one call of \<open>Colr\<close>; no slot is assigned.\<close>

definition Preset_call ::
  "collab \<Rightarrow> heap \<Rightarrow> ref \<Rightarrow> pyval \<Rightarrow> pyval \<Rightarrow> pyval \<Rightarrow> pyval
     \<Rightarrow> heap \<times> event list \<times> (error + string)" where
  "Preset_call env h self text f b s =
     (let p = h ! self;
          f' = (if f = PNone then fore p else f);
          b' = (if b = PNone then back' p else b);
          s' = (if s = PNone then style p else s)
      in (h, [Colr_call text f' b' s'], Colr env text f' b' s'))"

text \<open>\<open>__eq__\<close>: the \<open>isinstance\<close> check, then the chain of \<open>and\<close>.\<close>

fun Preset_eq :: "preset \<Rightarrow> pyobj \<Rightarrow> error + bool" where
  "Preset_eq p (Obj_Preset q) =
     Inr (if py_eq (fore p) (fore q)
          then (if py_eq (back' p) (back' q) then py_eq (style p) (style q) else False)
          else False)"
| "Preset_eq p other = Inl (TypeError [other])"

text \<open>\<open>__hash__\<close>: the built-in \<open>hash\<close>, a parameter, on the tuple of the slots.\<close>

definition Preset_hash :: "(pyval \<Rightarrow> int) \<Rightarrow> preset \<Rightarrow> int" where
  "Preset_hash hash p = hash (PTuple [fore p, back' p, style p])"

text \<open>\<open>__lt__\<close>: the \<open>isinstance\<close> check, then \<open><\<close> on the two tuples.\<close>

fun Preset_lt :: "preset \<Rightarrow> pyobj \<Rightarrow> error + bool" where
  "Preset_lt p (Obj_Preset q) =
     py_lt (PTuple [fore p, back' p, style p]) (PTuple [fore q, back' q, style q])"
| "Preset_lt p other = Inl (TypeError [other])"

text \<open>\<open>as_dict\<close>: the slots that are not \<open>None\<close>, in the order fore, back, style.\<close>

definition Preset_as_dict :: "preset \<Rightarrow> dict" where
  "Preset_as_dict p =
     (let d = [];
          d = (if fore p \<noteq> PNone then AList.update ''fore'' (fore p) d else d);
          d = (if back' p \<noteq> PNone then AList.update ''back'' (back' p) d else d);
          d = (if style p \<noteq> PNone then AList.update ''style'' (style p) d else d)
      in d)"

text \<open>
  \<open>str(Colr(**kwargs))\<close> with \<open>kwargs = {codetype: val}\<close>: \<open>Colr\<close> gets no text and one
  of the three keyword arguments.
\<close>

definition calculated ::
  "collab \<Rightarrow> string \<Rightarrow> pyval \<Rightarrow> event list \<times> (error + pyval)" where
  "calculated env codetype val =
     (let (f, b, s) =
            (if codetype = ''fore'' then (val, PNone, PNone)
             else if codetype = ''back'' then (PNone, val, PNone)
             else (PNone, PNone, val))
      in ([Colr_call PNone f b s],
          case Colr env PNone f b s of Inl e \<Rightarrow> Inl e | Inr c \<Rightarrow> Inr (PStr c)))"

text \<open>
  \<open>code\<close>. A \<open>codetype\<close> that is no string is never in the tuple of the three names.
  \<open>if fast:\<close> tests the truth value of what the table gave: \<open>None\<close> (no entry) and the
  empty string are both false, and both lead to the calculated value.
\<close>

definition truthy :: "string option \<Rightarrow> bool" where
  "truthy fast = (case fast of None \<Rightarrow> False | Some c \<Rightarrow> c \<noteq> [])"

definition Preset_code ::
  "collab \<Rightarrow> preset \<Rightarrow> pyval \<Rightarrow> pyval \<Rightarrow> event list \<times> (error + pyval)" where
  "Preset_code env p codetype dflt =
     (case codetype of
        PStr name \<Rightarrow>
          if name \<notin> set [''fore'', ''back'', ''style'']
          then ([], Inl (ValueError codetype))
          else
            let val = getattr_p p name PNone in
            if val = PNone then ([], Inr dflt)
            else
              let fast = codes env codetype val in
              (case fast of
                 Some c \<Rightarrow>
                   if truthy fast then ([Codes_get codetype val], Inr (PStr c))
                   else
                     (let (t, r) = calculated env name val
                      in (Codes_get codetype val # t, r))
               | None \<Rightarrow>
                   (let (t, r) = calculated env name val
                    in (Codes_get codetype val # t, r)))
      | _ \<Rightarrow> ([], Inl (ValueError codetype)))"

text \<open>
  The list comprehension of \<open>codes\<close>: the calls are made in order, and the first one
  that raises ends the comprehension.
\<close>

fun collect ::
  "(string \<Rightarrow> event list \<times> (error + pyval)) \<Rightarrow> string list
     \<Rightarrow> event list \<times> (error + pyval list)" where
  "collect f [] = ([], Inr [])"
| "collect f (s # ss) =
     (case f s of
        (t, Inl e) \<Rightarrow> (t, Inl e)
      | (t, Inr v) \<Rightarrow>
          (case collect f ss of
             (t', Inl e) \<Rightarrow> (t @ t', Inl e)
           | (t', Inr vs) \<Rightarrow> (t @ t', Inr (v # vs))))"

definition Preset_codes :: "collab \<Rightarrow> preset \<Rightarrow> event list \<times> (error + string)" where
  "Preset_codes env p =
     (let codetypes = [''fore'', ''back'', ''style''];
          (t, r) = collect (\<lambda>s. Preset_code env p (PStr s) PNone)
                     (filter (\<lambda>s. getattr_p p s PNone \<noteq> PNone) codetypes)
      in case r of Inl e \<Rightarrow> (t, Inl e) | Inr cs \<Rightarrow> (t, str_join cs))"

text \<open>\<open>merge\<close>: two constructor calls, the first for \<open>args\<close>, the second for the result.\<close>

definition Preset_merge ::
  "heap \<Rightarrow> ref \<Rightarrow> ref \<Rightarrow> pyval \<Rightarrow> pyval \<Rightarrow> pyval \<Rightarrow> ref \<times> heap" where
  "Preset_merge h self styleobj f b s =
     (let d = Preset_as_dict (h ! self);
          d = dict_update d (Preset_as_dict (h ! styleobj));
          (args, h) = Preset_new h f b s;
          d = dict_update d (Preset_as_dict (h ! args))
      in Preset_new h (kwarg d ''fore'') (kwarg d ''back'') (kwarg d ''style''))"

subsection \<open>Notions of the specification\<close>

text \<open>\<open>isinstance(other, Preset)\<close>.\<close>

fun isinstance_Preset :: "pyobj \<Rightarrow> bool" where
  "isinstance_Preset (Obj_Preset q) = True"
| "isinstance_Preset (Obj_Val v) = False"

text \<open>
  The lexicographic order on triples, as the specification words it: the first axis on
  which the two triples differ decides, by the order of the values on that axis, and
  equal triples are not below each other.
\<close>

fun lex_triple ::
  "pyval \<times> pyval \<times> pyval \<Rightarrow> pyval \<times> pyval \<times> pyval \<Rightarrow> error + bool" where
  "lex_triple (a1, a2, a3) (b1, b2, b3) =
     (if a1 \<noteq> b1 then py_lt a1 b1
      else if a2 \<noteq> b2 then py_lt a2 b2
      else if a3 \<noteq> b3 then py_lt a3 b3
      else Inr False)"

text \<open>
  The resolution of all codes, as the specification words it: for each axis in the order
  fore, back, style, nothing when the slot is absent and the code of the axis (resolved
  with no default) otherwise; the parts are concatenated, and the first error ends it.
\<close>

definition axis_part ::
  "collab \<Rightarrow> preset \<Rightarrow> string \<Rightarrow> event list \<times> (error + string)" where
  "axis_part env p name =
     (if getattr_p p name PNone = PNone then ([], Inr [])
      else (case Preset_code env p (PStr name) PNone of
              (t, Inl e) \<Rightarrow> (t, Inl e)
            | (t, Inr v) \<Rightarrow> (t, str_join [v])))"

fun then_concat ::
  "event list \<times> (error + string) \<Rightarrow> event list \<times> (error + string)
     \<Rightarrow> event list \<times> (error + string)" where
  "then_concat (t1, Inl e) nxt = (t1, Inl e)"
| "then_concat (t1, Inr s1) (t2, Inl e) = (t1 @ t2, Inl e)"
| "then_concat (t1, Inr s1) (t2, Inr s2) = (t1 @ t2, Inr (s1 @ s2))"

definition ResolveAllCodes :: "collab \<Rightarrow> preset \<Rightarrow> event list \<times> (error + string)" where
  "ResolveAllCodes env p =
     then_concat (axis_part env p ''fore'')
       (then_concat (axis_part env p ''back'') (axis_part env p ''style''))"

text \<open>
  An invalid value of an axis: it is not absent, the table gives no fragment for it, and
  \<open>Colr\<close>, called with that one axis set, raises the error \<open>e\<close>.
\<close>

definition invalid_value :: "collab \<Rightarrow> string \<Rightarrow> pyval \<Rightarrow> error \<Rightarrow> bool" where
  "invalid_value env name v e =
     (v \<noteq> PNone \<and> \<not> truthy (codes env (PStr name) v)
      \<and> snd (calculated env name v) = Inl e)"

subsection \<open>A sample table and renderer\<close>

text \<open>
  An instance of the imported names, for the concrete cases below: a table with two
  entries and a renderer that rejects one colour name.
\<close>

fun sample_tag :: "pyval \<Rightarrow> string" where
  "sample_tag PNone = []"
| "sample_tag (PStr n) = ''['' @ n @ '']''"
| "sample_tag v = ''[calc]''"

definition sample_env :: collab where
  "sample_env =
     \<lparr>codes = (\<lambda>t v.
          if t = PStr ''fore'' \<and> v = PStr ''red'' then Some ''[31m''
          else if t = PStr ''style'' \<and> v = PStr ''bold'' then Some ''[1m''
          else None),
      Colr = (\<lambda>text f b s.
          if f = PStr ''not-a-color'' then Inl (InvalidColr f)
          else Inr (sample_tag f @ sample_tag b @ sample_tag s
                    @ (case text of PStr t \<Rightarrow> t | _ \<Rightarrow> [])))\<rparr>"

section \<open>Properties\<close>

subsection \<open>Equality, order and hash\<close>

lemma py_eq_iff: "py_eq a b = (a = b)"
  and py_eq_seq_iff: "py_eq_seq xs ys = (xs = ys)"
  by (induction a b and xs ys rule: py_eq_py_eq_seq.induct) simp_all

lemma Preset_eq_Preset:
  "Preset_eq p (Obj_Preset q) =
     Inr (fore p = fore q \<and> back' p = back' q \<and> style p = style q)"
  by (simp add: py_eq_iff)

lemma Preset_lt_Preset:
  "Preset_lt p (Obj_Preset q) =
     lex_triple (fore p, back' p, style p) (fore q, back' q, style q)"
  by (simp add: py_eq_iff)

text \<open>
  Claim C4. \<open>__eq__\<close> on two Presets is true exactly when the three slots are pairwise
  equal (so two absent slots are equal), and \<open>__lt__\<close> on two Presets is the lexicographic
  order of their triples (fore, back, style), with the error of the value comparison
  on the deciding axis where those two values are not ordered.
\<close>

theorem Preset_eq_lt_lexicographic:
  "Preset_eq p (Obj_Preset q) =
     Inr (fore p = fore q \<and> back' p = back' q \<and> style p = style q)
   \<and> Preset_eq (Preset_init PNone PNone PNone) (Obj_Preset (Preset_init PNone PNone PNone))
       = Inr True
   \<and> Preset_lt p (Obj_Preset q) =
       lex_triple (fore p, back' p, style p) (fore q, back' q, style q)"
  using Preset_eq_Preset [of p q] Preset_lt_Preset [of p q]
  by (simp add: Preset_init_def)

theorem Preset_eq_lt_lexicographic_witness:
  "Preset_eq (Preset_init (PStr ''red'') PNone PNone)
     (Obj_Preset (Preset_init (PStr ''blue'') PNone PNone)) = Inr False
   \<and> Preset_lt (Preset_init (PStr ''red'') PNone PNone)
       (Obj_Preset (Preset_init (PStr ''blue'') PNone PNone)) = Inr False
   \<and> Preset_lt (Preset_init (PStr ''blue'') PNone PNone)
       (Obj_Preset (Preset_init (PStr ''red'') PNone PNone)) = Inr True"
  using Preset_eq_lt_lexicographic
    [of "Preset_init (PStr ''red'') PNone PNone" "Preset_init (PStr ''blue'') PNone PNone"]
    Preset_eq_lt_lexicographic
    [of "Preset_init (PStr ''blue'') PNone PNone" "Preset_init (PStr ''red'') PNone PNone"]
  by (simp add: Preset_init_def)

text \<open>
  Claim C5. For an operand that is not a Preset, \<open>__eq__\<close> and \<open>__lt__\<close> both raise
  \<open>TypeError\<close>; neither gives a truth value.
\<close>

theorem Preset_compare_non_Preset_raises:
  "\<not> isinstance_Preset other \<Longrightarrow>
     Preset_eq p other = Inl (TypeError [other])
     \<and> Preset_lt p other = Inl (TypeError [other])"
  by (cases other) simp_all

theorem Preset_compare_non_Preset_raises_witness:
  "\<not> isinstance_Preset (Obj_Val (PInt 42))
   \<and> Preset_eq (Preset_init (PStr ''red'') PNone PNone) (Obj_Val (PInt 42))
       = Inl (TypeError [Obj_Val (PInt 42)])
   \<and> Preset_lt (Preset_init (PStr ''red'') PNone PNone) (Obj_Val (PInt 42))
       = Inl (TypeError [Obj_Val (PInt 42)])"
  using Preset_compare_non_Preset_raises
    [of "Obj_Val (PInt 42)" "Preset_init (PStr ''red'') PNone PNone"]
  by simp

text \<open>
  Claim C6. Two Presets with equal triples (fore, back, style) have the same hash, and
  so have two Presets that \<open>__eq__\<close> finds equal, whatever the built-in \<open>hash\<close> is.
\<close>

theorem Preset_hash_consistent:
  "((fore p, back' p, style p) = (fore q, back' q, style q)
      \<longrightarrow> Preset_hash hash p = Preset_hash hash q)
   \<and> (Preset_eq p (Obj_Preset q) = Inr True
      \<longrightarrow> Preset_hash hash p = Preset_hash hash q)"
  by (simp add: Preset_hash_def py_eq_iff)

theorem Preset_hash_consistent_witness:
  "Preset_eq (Preset_init (PStr ''red'') PNone (PInt 1))
     (Obj_Preset (Preset_init (PStr ''red'') PNone (PInt 1))) = Inr True
   \<and> Preset_hash (\<lambda>v. int (size v)) (Preset_init (PStr ''red'') PNone (PInt 1))
       = Preset_hash (\<lambda>v. int (size v)) (Preset_init (PStr ''red'') PNone (PInt 1))"
  using Preset_hash_consistent
    [of "Preset_init (PStr ''red'') PNone (PInt 1)"
        "Preset_init (PStr ''red'') PNone (PInt 1)" "\<lambda>v. int (size v)"]
  by (simp add: Preset_init_def)

subsection \<open>Resolving one code\<close>

lemma getattr_slots [simp]:
  "getattr_p p ''fore'' d = fore p"
  "getattr_p p ''back'' d = back' p"
  "getattr_p p ''style'' d = style p"
  by (simp_all add: getattr_p_def)

lemma code_bad_axis:
  "codetype \<notin> PStr ` {''fore'', ''back'', ''style''} \<Longrightarrow>
     Preset_code env p codetype dflt = ([], Inl (ValueError codetype))"
  by (cases codetype) (auto simp: Preset_code_def)

lemma code_absent:
  "name \<in> {''fore'', ''back'', ''style''} \<Longrightarrow> getattr_p p name PNone = PNone \<Longrightarrow>
     Preset_code env p (PStr name) dflt = ([], Inr dflt)"
  by (auto simp: Preset_code_def)

lemma code_fast:
  "name \<in> {''fore'', ''back'', ''style''} \<Longrightarrow> getattr_p p name PNone \<noteq> PNone \<Longrightarrow>
   codes env (PStr name) (getattr_p p name PNone) = Some c \<Longrightarrow> c \<noteq> [] \<Longrightarrow>
     Preset_code env p (PStr name) dflt
       = ([Codes_get (PStr name) (getattr_p p name PNone)], Inr (PStr c))"
  by (auto simp: Preset_code_def truthy_def Let_def)

lemma code_slow:
  "name \<in> {''fore'', ''back'', ''style''} \<Longrightarrow> getattr_p p name PNone \<noteq> PNone \<Longrightarrow>
   \<not> truthy (codes env (PStr name) (getattr_p p name PNone)) \<Longrightarrow>
     Preset_code env p (PStr name) dflt
       = (Codes_get (PStr name) (getattr_p p name PNone)
            # fst (calculated env name (getattr_p p name PNone)),
          snd (calculated env name (getattr_p p name PNone)))"
  by (auto simp: Preset_code_def truthy_def Let_def split: option.splits prod.splits)

lemma code_shape:
  "name \<in> {''fore'', ''back'', ''style''} \<Longrightarrow> getattr_p p name PNone \<noteq> PNone \<Longrightarrow>
   (\<exists>t e. Preset_code env p (PStr name) dflt = (t, Inl e))
   \<or> (\<exists>t c. Preset_code env p (PStr name) dflt = (t, Inr (PStr c)))"
  apply (cases "truthy (codes env (PStr name) (getattr_p p name PNone))")
  subgoal
    by (cases "codes env (PStr name) (getattr_p p name PNone)")
       (auto simp: truthy_def code_fast)
  subgoal
    by (simp add: code_slow calculated_def Let_def split: sum.splits prod.splits)
  done

text \<open>
  Claim C7. A \<open>codetype\<close> that is none of the strings fore, back, style makes \<open>code\<close>
  raise \<open>ValueError\<close>, and no use of the table or of \<open>Colr\<close> comes before it.
\<close>

theorem code_rejects_other_axis:
  "codetype \<notin> PStr ` {''fore'', ''back'', ''style''} \<Longrightarrow>
     Preset_code env p codetype dflt = ([], Inl (ValueError codetype))"
  by (rule code_bad_axis)

theorem code_rejects_other_axis_witness:
  "PStr ''bold'' \<notin> PStr ` {''fore'', ''back'', ''style''}
   \<and> Preset_code sample_env (Preset_init (PStr ''red'') PNone (PStr ''bold''))
        (PStr ''bold'') PNone = ([], Inl (ValueError (PStr ''bold'')))
   \<and> PInt 0 \<notin> PStr ` {''fore'', ''back'', ''style''}
   \<and> Preset_code sample_env (Preset_init (PStr ''red'') PNone (PStr ''bold''))
        (PInt 0) (PStr ''d'') = ([], Inl (ValueError (PInt 0)))"
  using code_rejects_other_axis
      [of "PStr ''bold''" sample_env "Preset_init (PStr ''red'') PNone (PStr ''bold'')" PNone]
    code_rejects_other_axis
      [of "PInt 0" sample_env "Preset_init (PStr ''red'') PNone (PStr ''bold'')" "PStr ''d''"]
  by auto

subsection \<open>Resolving all codes\<close>

lemma codes_eq_ResolveAllCodes: "Preset_codes env p = ResolveAllCodes env p"
proof -
  have f: "fore p \<noteq> PNone \<Longrightarrow>
      (\<exists>t e. Preset_code env p (PStr ''fore'') PNone = (t, Inl e))
      \<or> (\<exists>t c. Preset_code env p (PStr ''fore'') PNone = (t, Inr (PStr c)))"
    using code_shape [of "''fore''" p env PNone] by simp
  have b: "back' p \<noteq> PNone \<Longrightarrow>
      (\<exists>t e. Preset_code env p (PStr ''back'') PNone = (t, Inl e))
      \<or> (\<exists>t c. Preset_code env p (PStr ''back'') PNone = (t, Inr (PStr c)))"
    using code_shape [of "''back''" p env PNone] by simp
  have s: "style p \<noteq> PNone \<Longrightarrow>
      (\<exists>t e. Preset_code env p (PStr ''style'') PNone = (t, Inl e))
      \<or> (\<exists>t c. Preset_code env p (PStr ''style'') PNone = (t, Inr (PStr c)))"
    using code_shape [of "''style''" p env PNone] by simp
  show ?thesis
    unfolding Preset_codes_def ResolveAllCodes_def axis_part_def Let_def
    using f b s
    by (cases "fore p = PNone"; cases "back' p = PNone"; cases "style p = PNone") auto
qed

lemma codes_empty_Preset: "Preset_codes env (Preset_init PNone PNone PNone) = ([], Inr [])"
  by (simp add: Preset_codes_def Preset_init_def)

text \<open>
  Claim C3. \<open>codes\<close> is the concatenation, in the order fore, back, style, of \<open>code\<close>
  (called with no default) for the slots that are not absent; an absent slot adds
  nothing, and a Preset with three absent slots gives the empty string.
\<close>

theorem codes_concatenates_axes:
  "Preset_codes env p = ResolveAllCodes env p
   \<and> Preset_codes env (Preset_init PNone PNone PNone) = ([], Inr [])"
  using codes_eq_ResolveAllCodes [of env p] codes_empty_Preset [of env] by simp

theorem codes_concatenates_axes_witness:
  "Preset_codes sample_env (Preset_init (PStr ''red'') PNone (PStr ''bold''))
     = ([Codes_get (PStr ''fore'') (PStr ''red''), Codes_get (PStr ''style'') (PStr ''bold'')],
        Inr ''[31m[1m'')"
  using codes_concatenates_axes
      [of sample_env "Preset_init (PStr ''red'') PNone (PStr ''bold'')"]
  by (simp add: ResolveAllCodes_def axis_part_def Preset_init_def Preset_code_def
      sample_env_def truthy_def)

subsection \<open>Merging\<close>

lemma map_of_fold_update:
  "map_of (fold (\<lambda>(k, v) acc. AList.update k v acc) e d) = map_of d ++ map_of (rev e)"
  by (induction e arbitrary: d)
     (auto simp: update_conv' map_add_upd_left fun_eq_iff map_add_def split: option.splits)

lemma map_of_as_dict:
  "map_of (Preset_as_dict p) k =
     (if k = ''fore'' \<and> fore p \<noteq> PNone then Some (fore p)
      else if k = ''back'' \<and> back' p \<noteq> PNone then Some (back' p)
      else if k = ''style'' \<and> style p \<noteq> PNone then Some (style p)
      else None)"
  by (simp add: Preset_as_dict_def Let_def)

lemma map_of_rev_as_dict: "map_of (rev (Preset_as_dict p)) = map_of (Preset_as_dict p)"
  by (rule ext) (simp add: Preset_as_dict_def Let_def)

lemma kwarg_dict_update:
  "kwarg (dict_update d (Preset_as_dict p)) k =
     (if k = ''fore'' \<and> fore p \<noteq> PNone then fore p
      else if k = ''back'' \<and> back' p \<noteq> PNone then back' p
      else if k = ''style'' \<and> style p \<noteq> PNone then style p
      else kwarg d k)"
  by (simp add: kwarg_def dict_update_def map_of_fold_update map_of_rev_as_dict map_add_def
      map_of_as_dict)

lemma kwarg_as_dict:
  "kwarg (Preset_as_dict p) k =
     (if k = ''fore'' then fore p else if k = ''back'' then back' p
      else if k = ''style'' then style p else PNone)"
  by (simp add: kwarg_def map_of_as_dict)


lemma merge_result:
  "Preset_merge h self other f b s =
     (Suc (length h),
      h @ [Preset_init f b s,
           Preset_init
             (if f \<noteq> PNone then f
              else if fore (h ! other) \<noteq> PNone then fore (h ! other) else fore (h ! self))
             (if b \<noteq> PNone then b
              else if back' (h ! other) \<noteq> PNone then back' (h ! other) else back' (h ! self))
             (if s \<noteq> PNone then s
              else if style (h ! other) \<noteq> PNone then style (h ! other) else style (h ! self))])"
  by (simp add: Preset_merge_def Preset_new_def Let_def kwarg_dict_update kwarg_as_dict
      nth_append Preset_init_def)

text \<open>
  Claim C1. \<open>merge\<close> gives a new instance. On each axis it holds the explicit argument
  when one is given, else the value of \<open>other\<close> when \<open>other\<close> has one, else the value of
  \<open>self\<close>; an absent value in a higher layer erases nothing. Every instance that was
  there before the call, \<open>self\<close> and \<open>other\<close> among them, keeps its slots.
\<close>

theorem merge_precedence:
  assumes "self < length h" and "other < length h"
  shows "case Preset_merge h self other f b s of (r, h') \<Rightarrow>
      length h \<le> r \<and> r < length h'
      \<and> (\<forall>i < length h. h' ! i = h ! i)
      \<and> h' ! self = h ! self \<and> h' ! other = h ! other
      \<and> fore (h' ! r) =
          (if f \<noteq> PNone then f
           else if fore (h ! other) \<noteq> PNone then fore (h ! other) else fore (h ! self))
      \<and> back' (h' ! r) =
          (if b \<noteq> PNone then b
           else if back' (h ! other) \<noteq> PNone then back' (h ! other) else back' (h ! self))
      \<and> style (h' ! r) =
          (if s \<noteq> PNone then s
           else if style (h ! other) \<noteq> PNone then style (h ! other) else style (h ! self))"
  using assms by (simp add: merge_result nth_append Preset_init_def)

theorem merge_precedence_witness:
  "(0::nat) < length [Preset_init (PStr ''red'') PNone (PStr ''bold''),
                      Preset_init PNone (PStr ''white'') PNone]
   \<and> (1::nat) < length [Preset_init (PStr ''red'') PNone (PStr ''bold''),
                      Preset_init PNone (PStr ''white'') PNone]
   \<and> (case Preset_merge [Preset_init (PStr ''red'') PNone (PStr ''bold''),
                      Preset_init PNone (PStr ''white'') PNone] 0 1 PNone PNone (PStr ''underline'')
       of (r, h') \<Rightarrow>
         h' ! r = Preset_init (PStr ''red'') (PStr ''white'') (PStr ''underline'')
         \<and> h' ! 0 = Preset_init (PStr ''red'') PNone (PStr ''bold'')
         \<and> h' ! 1 = Preset_init PNone (PStr ''white'') PNone)"
  using merge_precedence
    [where self = 0 and other = 1 and f = PNone and b = PNone and s = "PStr ''underline''"
       and h = "[Preset_init (PStr ''red'') PNone (PStr ''bold''),
                 Preset_init PNone (PStr ''white'') PNone]"]
  by (auto simp: Preset_init_def split: prod.splits)

subsection \<open>Calling a Preset\<close>

text \<open>
  Claim C9. A call with overrides hands \<open>Colr\<close> each override in place of the slot and
  leaves the store, so the three slots of the Preset, as it was; a later call without
  overrides hands \<open>Colr\<close> the original slots.
\<close>

theorem call_overrides_transient:
  assumes "self < length h"
  shows "case Preset_call env h self msg f b s of (h', t, r) \<Rightarrow>
      h' = h
      \<and> fore (h' ! self) = fore (h ! self) \<and> back' (h' ! self) = back' (h ! self)
      \<and> style (h' ! self) = style (h ! self)
      \<and> t = [Colr_call msg (if f = PNone then fore (h ! self) else f)
                (if b = PNone then back' (h ! self) else b)
                (if s = PNone then style (h ! self) else s)]
      \<and> r = Colr env msg (if f = PNone then fore (h ! self) else f)
                (if b = PNone then back' (h ! self) else b)
                (if s = PNone then style (h ! self) else s)
      \<and> Preset_call env h' self msg' PNone PNone PNone =
          (h, [Colr_call msg' (fore (h ! self)) (back' (h ! self)) (style (h ! self))],
           Colr env msg' (fore (h ! self)) (back' (h ! self)) (style (h ! self)))"
  by (simp add: Preset_call_def Let_def)

theorem call_overrides_transient_witness:
  "(0::nat) < length [Preset_init (PStr ''red'') PNone PNone]
   \<and> Preset_call sample_env [Preset_init (PStr ''red'') PNone PNone] 0 (PStr ''x'')
        (PStr ''blue'') PNone PNone
       = ([Preset_init (PStr ''red'') PNone PNone],
          [Colr_call (PStr ''x'') (PStr ''blue'') PNone PNone], Inr ''[blue]x'')
   \<and> Preset_call sample_env [Preset_init (PStr ''red'') PNone PNone] 0 (PStr ''y'')
        PNone PNone PNone
       = ([Preset_init (PStr ''red'') PNone PNone],
          [Colr_call (PStr ''y'') (PStr ''red'') PNone PNone], Inr ''[red]y'')"
  using call_overrides_transient
    [where self = 0 and h = "[Preset_init (PStr ''red'') PNone PNone]" and env = sample_env
       and msg = "PStr ''x''" and f = "PStr ''blue''" and b = PNone and s = PNone
       and msg' = "PStr ''y''"]
  by (auto simp: Preset_init_def sample_env_def split: prod.splits)

subsection \<open>Validation happens at resolution\<close>

lemma then_concat_snd_isl:
  "isl (snd (then_concat a b)) = (isl (snd a) \<or> isl (snd b))"
  by (induction a b rule: then_concat.induct) auto

lemma then_concat_first_error: "snd a = Inl e \<Longrightarrow> snd (then_concat a b) = Inl e"
  by (induction a b rule: then_concat.induct) auto

lemma then_concat_second_error:
  "\<not> isl (snd a) \<Longrightarrow> snd b = Inl e \<Longrightarrow> snd (then_concat a b) = Inl e"
  by (induction a b rule: then_concat.induct) auto

lemma then_concat_fst:
  "fst (then_concat a b) = (if isl (snd a) then fst a else fst a @ fst b)"
  by (induction a b rule: then_concat.induct) auto

lemma axis_part_invalid:
  assumes "name \<in> {''fore'', ''back'', ''style''}"
    and "invalid_value env name (getattr_p p name PNone) e"
  shows "snd (axis_part env p name) = Inl e"
    and "snd (Preset_code env p (PStr name) dflt) = Inl e"
  using assms by (auto simp: axis_part_def invalid_value_def code_slow split: prod.splits sum.splits)


lemma codes_invalid:
  assumes "name \<in> {''fore'', ''back'', ''style''}"
    and "invalid_value env name (getattr_p p name PNone) e"
  shows "isl (snd (Preset_codes env p))"
    and "(\<forall>n \<in> set (takeWhile (\<lambda>n. n \<noteq> name) [''fore'', ''back'', ''style'']).
            \<not> isl (snd (axis_part env p n))) \<Longrightarrow> snd (Preset_codes env p) = Inl e"
proof -
  have e: "snd (axis_part env p name) = Inl e"
    using assms by (rule axis_part_invalid)
  then have i: "isl (snd (axis_part env p name))" by simp
  from assms(1) consider "name = ''fore''" | "name = ''back''" | "name = ''style''" by blast
  then show "isl (snd (Preset_codes env p))"
  proof cases
    case 1 with i show ?thesis
      by (simp add: codes_eq_ResolveAllCodes ResolveAllCodes_def then_concat_snd_isl)
  next
    case 2 with i show ?thesis
      by (simp add: codes_eq_ResolveAllCodes ResolveAllCodes_def then_concat_snd_isl)
  next
    case 3 with i show ?thesis
      by (simp add: codes_eq_ResolveAllCodes ResolveAllCodes_def then_concat_snd_isl)
  qed
  assume pre: "\<forall>n \<in> set (takeWhile (\<lambda>n. n \<noteq> name) [''fore'', ''back'', ''style'']).
            \<not> isl (snd (axis_part env p n))"
  from assms(1) consider "name = ''fore''" | "name = ''back''" | "name = ''style''" by blast
  then show "snd (Preset_codes env p) = Inl e"
  proof cases
    case 1 with e show ?thesis
      by (simp add: codes_eq_ResolveAllCodes ResolveAllCodes_def then_concat_first_error)
  next
    case 2
    with pre have "\<not> isl (snd (axis_part env p ''fore''))" by simp
    with 2 e show ?thesis
      by (simp add: codes_eq_ResolveAllCodes ResolveAllCodes_def then_concat_first_error
          then_concat_second_error)
  next
    case 3
    with pre have "\<not> isl (snd (axis_part env p ''fore''))"
      and "\<not> isl (snd (axis_part env p ''back''))" by simp_all
    with 3 e show ?thesis
      by (simp add: codes_eq_ResolveAllCodes ResolveAllCodes_def then_concat_first_error
          then_concat_second_error then_concat_snd_isl)
  qed
qed

lemma map_of_as_dict_getattr:
  "map_of (Preset_as_dict p) name =
     (if name \<in> {''fore'', ''back'', ''style''} \<and> getattr_p p name PNone \<noteq> PNone
      then Some (getattr_p p name PNone) else None)"
  by (simp add: map_of_as_dict getattr_p_def)


text \<open>
  Claim C8. The constructor stores any three values and cannot fail. An invalid value
  shows only when codes are resolved: \<open>code\<close> for its axis raises the error of \<open>Colr\<close>,
  \<open>codes\<close> raises instead of returning a string (that very error when no earlier axis
  raises), and a call raises whatever \<open>Colr\<close> raises for the values it is handed; and
  \<open>as_dict\<close> still reports the invalid value.
\<close>

theorem validation_deferred:
  "Preset_init f b s = \<lparr>fore = f, back' = b, style = s\<rparr>
   \<and> Preset_new h f b s = (length h, h @ [\<lparr>fore = f, back' = b, style = s\<rparr>])
   \<and> (name \<in> {''fore'', ''back'', ''style''}
        \<and> invalid_value env name (getattr_p p name PNone) e \<longrightarrow>
          snd (Preset_code env p (PStr name) dflt) = Inl e
          \<and> isl (snd (Preset_codes env p))
          \<and> ((\<forall>n \<in> set (takeWhile (\<lambda>n. n \<noteq> name) [''fore'', ''back'', ''style'']).
                 \<not> isl (snd (axis_part env p n)))
               \<longrightarrow> snd (Preset_codes env p) = Inl e)
          \<and> map_of (Preset_as_dict p) name = Some (getattr_p p name PNone))
   \<and> (self < length h'
        \<and> Colr env msg (if f' = PNone then fore (h' ! self) else f')
             (if b'' = PNone then back' (h' ! self) else b'')
             (if s' = PNone then style (h' ! self) else s') = Inl e' \<longrightarrow>
          snd (snd (Preset_call env h' self msg f' b'' s')) = Inl e'
          \<and> fst (Preset_call env h' self msg f' b'' s') = h')"
proof (intro conjI impI)
  show "Preset_init f b s = \<lparr>fore = f, back' = b, style = s\<rparr>"
    by (simp add: Preset_init_def)
  show "Preset_new h f b s = (length h, h @ [\<lparr>fore = f, back' = b, style = s\<rparr>])"
    by (simp add: Preset_new_def Preset_init_def)
next
  assume a: "name \<in> {''fore'', ''back'', ''style''}
        \<and> invalid_value env name (getattr_p p name PNone) e"
  then have n: "name \<in> {''fore'', ''back'', ''style''}"
    and v: "invalid_value env name (getattr_p p name PNone) e" by simp_all
  from n v show "snd (Preset_code env p (PStr name) dflt) = Inl e"
    by (rule axis_part_invalid)
  from n v show "isl (snd (Preset_codes env p))"
    by (rule codes_invalid)
  from v have "getattr_p p name PNone \<noteq> PNone"
    by (simp add: invalid_value_def)
  with n show "map_of (Preset_as_dict p) name = Some (getattr_p p name PNone)"
    by (simp add: map_of_as_dict_getattr)
  assume "\<forall>n \<in> set (takeWhile (\<lambda>n. n \<noteq> name) [''fore'', ''back'', ''style'']).
                 \<not> isl (snd (axis_part env p n))"
  with n v show "snd (Preset_codes env p) = Inl e"
    by (rule codes_invalid)
next
  assume "self < length h'
        \<and> Colr env msg (if f' = PNone then fore (h' ! self) else f')
             (if b'' = PNone then back' (h' ! self) else b'')
             (if s' = PNone then style (h' ! self) else s') = Inl e'"
  then show "snd (snd (Preset_call env h' self msg f' b'' s')) = Inl e'"
    by (simp add: Preset_call_def Let_def)
  show "fst (Preset_call env h' self msg f' b'' s') = h'"
    by (simp add: Preset_call_def Let_def)
qed

lemma sample_invalid:
  "invalid_value sample_env ''fore'' (PStr ''not-a-color'') (InvalidColr (PStr ''not-a-color''))"
  by (simp add: invalid_value_def sample_env_def truthy_def calculated_def)

theorem validation_deferred_witness:
  "invalid_value sample_env ''fore''
     (getattr_p (Preset_init (PStr ''not-a-color'') PNone (PStr ''bold'')) ''fore'' PNone)
     (InvalidColr (PStr ''not-a-color''))
   \<and> snd (Preset_code sample_env (Preset_init (PStr ''not-a-color'') PNone (PStr ''bold''))
        (PStr ''fore'') PNone) = Inl (InvalidColr (PStr ''not-a-color''))
   \<and> snd (Preset_codes sample_env (Preset_init (PStr ''not-a-color'') PNone (PStr ''bold'')))
       = Inl (InvalidColr (PStr ''not-a-color''))
   \<and> map_of (Preset_as_dict (Preset_init (PStr ''not-a-color'') PNone (PStr ''bold''))) ''fore''
       = Some (PStr ''not-a-color'')
   \<and> (0::nat) < length [Preset_init (PStr ''not-a-color'') PNone (PStr ''bold'')]
   \<and> snd (snd (Preset_call sample_env [Preset_init (PStr ''not-a-color'') PNone (PStr ''bold'')]
        0 (PStr ''hi'') PNone PNone PNone)) = Inl (InvalidColr (PStr ''not-a-color''))"
  using sample_invalid validation_deferred
    [where name = "''fore''" and env = sample_env and dflt = PNone
       and p = "Preset_init (PStr ''not-a-color'') PNone (PStr ''bold'')"
       and e = "InvalidColr (PStr ''not-a-color'')" and self = 0
       and h' = "[Preset_init (PStr ''not-a-color'') PNone (PStr ''bold'')]"
       and msg = "PStr ''hi''" and f' = PNone and b'' = PNone and s' = PNone
       and e' = "InvalidColr (PStr ''not-a-color'')"]
  by (simp add: Preset_init_def sample_env_def)

subsection \<open>Absent is None\<close>

lemma calculated_fst: "\<exists>a b c. fst (calculated env name v) = [Colr_call PNone a b c]"
  by (simp add: calculated_def)

lemma axis_part_fst:
  assumes "name \<in> {''fore'', ''back'', ''style''}"
  shows "fst (axis_part env p name) =
     (if getattr_p p name PNone = PNone then []
      else if truthy (codes env (PStr name) (getattr_p p name PNone))
        then [Codes_get (PStr name) (getattr_p p name PNone)]
      else Codes_get (PStr name) (getattr_p p name PNone)
             # fst (calculated env name (getattr_p p name PNone)))"
proof (cases "getattr_p p name PNone = PNone")
  case True
  then show ?thesis by (simp add: axis_part_def)
next
  case v: False
  show ?thesis
  proof (cases "truthy (codes env (PStr name) (getattr_p p name PNone))")
    case True
    then obtain c where "codes env (PStr name) (getattr_p p name PNone) = Some c" "c \<noteq> []"
      by (auto simp: truthy_def split: option.splits)
    with assms v True show ?thesis
      using code_fast [of name p env c PNone] by (simp add: axis_part_def)
  next
    case False
    with assms v show ?thesis
      using code_slow [of name p env PNone]
      by (simp add: axis_part_def split: prod.splits sum.splits)
  qed
qed

lemma axis_part_log_only:
  assumes "name \<in> {''fore'', ''back'', ''style''}"
    and "Codes_get t v \<in> set (fst (axis_part env p name))"
  shows "t = PStr name \<and> getattr_p p name PNone \<noteq> PNone"
proof -
  obtain a b c where "fst (calculated env name (getattr_p p name PNone)) = [Colr_call PNone a b c]"
    using calculated_fst by blast
  with assms show ?thesis
    by (simp add: axis_part_fst split: if_splits)
qed

lemma axis_part_log_has:
  assumes "name \<in> {''fore'', ''back'', ''style''}" and "getattr_p p name PNone \<noteq> PNone"
  shows "Codes_get (PStr name) (getattr_p p name PNone) \<in> set (fst (axis_part env p name))"
  using assms by (simp add: axis_part_fst)

lemma ResolveAllCodes_log_subset:
  "set (fst (ResolveAllCodes env p)) \<subseteq>
     set (fst (axis_part env p ''fore'')) \<union> set (fst (axis_part env p ''back''))
     \<union> set (fst (axis_part env p ''style''))"
  by (auto simp: ResolveAllCodes_def then_concat_fst split: if_splits)

lemma ResolveAllCodes_log_all:
  "\<not> isl (snd (ResolveAllCodes env p)) \<Longrightarrow>
   set (fst (ResolveAllCodes env p)) =
     set (fst (axis_part env p ''fore'')) \<union> set (fst (axis_part env p ''back''))
     \<union> set (fst (axis_part env p ''style''))"
  by (auto simp: ResolveAllCodes_def then_concat_fst then_concat_snd_isl)

lemma codes_log_only:
  assumes "name \<in> {''fore'', ''back'', ''style''}"
    and "Codes_get (PStr name) v \<in> set (fst (Preset_codes env p))"
  shows "getattr_p p name PNone \<noteq> PNone"
proof -
  from assms(2) have "Codes_get (PStr name) v \<in>
     set (fst (axis_part env p ''fore'')) \<union> set (fst (axis_part env p ''back''))
     \<union> set (fst (axis_part env p ''style''))"
    using ResolveAllCodes_log_subset [of env p] by (auto simp: codes_eq_ResolveAllCodes)
  then consider "Codes_get (PStr name) v \<in> set (fst (axis_part env p ''fore''))"
    | "Codes_get (PStr name) v \<in> set (fst (axis_part env p ''back''))"
    | "Codes_get (PStr name) v \<in> set (fst (axis_part env p ''style''))" by blast
  then show ?thesis
  proof cases
    case 1 then show ?thesis using axis_part_log_only [of "''fore''" "PStr name" v env p] by simp
  next
    case 2 then show ?thesis using axis_part_log_only [of "''back''" "PStr name" v env p] by simp
  next
    case 3 then show ?thesis using axis_part_log_only [of "''style''" "PStr name" v env p] by simp
  qed
qed

lemma codes_log_has:
  assumes "name \<in> {''fore'', ''back'', ''style''}" and "getattr_p p name PNone \<noteq> PNone"
    and "\<not> isl (snd (Preset_codes env p))"
  shows "Codes_get (PStr name) (getattr_p p name PNone) \<in> set (fst (Preset_codes env p))"
proof -
  have m: "Codes_get (PStr name) (getattr_p p name PNone) \<in> set (fst (axis_part env p name))"
    using assms(1,2) by (rule axis_part_log_has)
  from assms(1) have "name = ''fore'' \<or> name = ''back'' \<or> name = ''style''" by simp
  then have "Codes_get (PStr name) (getattr_p p name PNone) \<in>
     set (fst (axis_part env p ''fore'')) \<union> set (fst (axis_part env p ''back''))
     \<union> set (fst (axis_part env p ''style''))"
    using m by (elim disjE) simp_all
  with assms(3) show ?thesis
    using ResolveAllCodes_log_all [of env p] by (simp add: codes_eq_ResolveAllCodes)
qed


text \<open>
  Claim C10. Absent means \<open>None\<close> and nothing else. A call hands \<open>Colr\<close> every override
  that is not \<open>None\<close>, the empty string included. \<open>as_dict\<close> has a key exactly for the
  slots that are not \<open>None\<close>; \<open>codes\<close> looks up an axis only if its slot is not \<open>None\<close>,
  and every such axis when it returns; \<open>merge\<close> lets a layer win on an axis exactly when
  its value there is not \<open>None\<close>. \<open>code\<close> returns the default only for a slot that is
  \<open>None\<close>: for any other slot the table is consulted, the default plays no part, and
  without a fragment from the table \<open>Colr\<close> renders the value.
\<close>

theorem absent_is_exactly_None:
  "(self < length h \<longrightarrow>
      fst (snd (Preset_call env h self msg f b s)) =
        [Colr_call msg (if f = PNone then fore (h ! self) else f)
           (if b = PNone then back' (h ! self) else b)
           (if s = PNone then style (h ! self) else s)]
      \<and> fst (snd (Preset_call env h self msg (PStr []) (PStr []) (PStr []))) =
        [Colr_call msg (PStr []) (PStr []) (PStr [])])
   \<and> map_of (Preset_as_dict p) name =
       (if name \<in> {''fore'', ''back'', ''style''} \<and> getattr_p p name PNone \<noteq> PNone
        then Some (getattr_p p name PNone) else None)
   \<and> (name \<in> {''fore'', ''back'', ''style''} \<longrightarrow>
        ((\<exists>v. Codes_get (PStr name) v \<in> set (fst (Preset_codes env p)))
           \<longrightarrow> getattr_p p name PNone \<noteq> PNone)
        \<and> (getattr_p p name PNone \<noteq> PNone \<and> \<not> isl (snd (Preset_codes env p))
           \<longrightarrow> Codes_get (PStr name) (getattr_p p name PNone)
                 \<in> set (fst (Preset_codes env p))))
   \<and> (self < length h \<and> other < length h \<longrightarrow>
        (case Preset_merge h self other f b s of (r, h') \<Rightarrow>
           fore (h' ! r) =
             (if f \<noteq> PNone then f
              else if fore (h ! other) \<noteq> PNone then fore (h ! other) else fore (h ! self))
           \<and> back' (h' ! r) =
             (if b \<noteq> PNone then b
              else if back' (h ! other) \<noteq> PNone then back' (h ! other)
              else back' (h ! self))
           \<and> style (h' ! r) =
             (if s \<noteq> PNone then s
              else if style (h ! other) \<noteq> PNone then style (h ! other)
              else style (h ! self))))
   \<and> (name \<in> {''fore'', ''back'', ''style''} \<longrightarrow>
        (getattr_p p name PNone = PNone \<longrightarrow>
           Preset_code env p (PStr name) dflt = ([], Inr dflt))
        \<and> (getattr_p p name PNone \<noteq> PNone \<longrightarrow>
           Preset_code env p (PStr name) dflt = Preset_code env p (PStr name) dflt'
           \<and> (\<exists>t. fst (Preset_code env p (PStr name) dflt)
                    = Codes_get (PStr name) (getattr_p p name PNone) # t)
           \<and> (\<not> truthy (codes env (PStr name) (getattr_p p name PNone)) \<longrightarrow>
                Preset_code env p (PStr name) dflt
                  = (Codes_get (PStr name) (getattr_p p name PNone)
                       # fst (calculated env name (getattr_p p name PNone)),
                     snd (calculated env name (getattr_p p name PNone))))))"
proof (intro conjI impI)
  show "fst (snd (Preset_call env h self msg f b s)) =
        [Colr_call msg (if f = PNone then fore (h ! self) else f)
           (if b = PNone then back' (h ! self) else b)
           (if s = PNone then style (h ! self) else s)]"
    by (simp add: Preset_call_def Let_def)
  show "fst (snd (Preset_call env h self msg (PStr []) (PStr []) (PStr []))) =
        [Colr_call msg (PStr []) (PStr []) (PStr [])]"
    by (simp add: Preset_call_def Let_def)
  show "map_of (Preset_as_dict p) name =
       (if name \<in> {''fore'', ''back'', ''style''} \<and> getattr_p p name PNone \<noteq> PNone
        then Some (getattr_p p name PNone) else None)"
    by (rule map_of_as_dict_getattr)
next
  assume "name \<in> {''fore'', ''back'', ''style''}"
    and "\<exists>v. Codes_get (PStr name) v \<in> set (fst (Preset_codes env p))"
  then show "getattr_p p name PNone \<noteq> PNone"
    using codes_log_only [of name _ env p] by blast
next
  assume "name \<in> {''fore'', ''back'', ''style''}"
    and "getattr_p p name PNone \<noteq> PNone \<and> \<not> isl (snd (Preset_codes env p))"
  then show "Codes_get (PStr name) (getattr_p p name PNone) \<in> set (fst (Preset_codes env p))"
    using codes_log_has [of name p env] by blast
next
  assume "self < length h \<and> other < length h"
  then show "case Preset_merge h self other f b s of (r, h') \<Rightarrow>
           fore (h' ! r) =
             (if f \<noteq> PNone then f
              else if fore (h ! other) \<noteq> PNone then fore (h ! other) else fore (h ! self))
           \<and> back' (h' ! r) =
             (if b \<noteq> PNone then b
              else if back' (h ! other) \<noteq> PNone then back' (h ! other)
              else back' (h ! self))
           \<and> style (h' ! r) =
             (if s \<noteq> PNone then s
              else if style (h ! other) \<noteq> PNone then style (h ! other)
              else style (h ! self))"
    by (simp add: merge_result nth_append Preset_init_def)
next
  assume n: "name \<in> {''fore'', ''back'', ''style''}"
  { assume "getattr_p p name PNone = PNone"
    with n show "Preset_code env p (PStr name) dflt = ([], Inr dflt)"
      by (rule code_absent) }
  assume v: "getattr_p p name PNone \<noteq> PNone"
  have shape: "\<And>d. Preset_code env p (PStr name) d =
      (if truthy (codes env (PStr name) (getattr_p p name PNone))
       then ([Codes_get (PStr name) (getattr_p p name PNone)],
             Inr (PStr (the (codes env (PStr name) (getattr_p p name PNone)))))
       else (Codes_get (PStr name) (getattr_p p name PNone)
               # fst (calculated env name (getattr_p p name PNone)),
             snd (calculated env name (getattr_p p name PNone))))"
  proof -
    fix d
    show "Preset_code env p (PStr name) d =
      (if truthy (codes env (PStr name) (getattr_p p name PNone))
       then ([Codes_get (PStr name) (getattr_p p name PNone)],
             Inr (PStr (the (codes env (PStr name) (getattr_p p name PNone)))))
       else (Codes_get (PStr name) (getattr_p p name PNone)
               # fst (calculated env name (getattr_p p name PNone)),
             snd (calculated env name (getattr_p p name PNone))))"
    proof (cases "truthy (codes env (PStr name) (getattr_p p name PNone))")
      case True
      then obtain c where "codes env (PStr name) (getattr_p p name PNone) = Some c" "c \<noteq> []"
        by (auto simp: truthy_def split: option.splits)
      with n v True show ?thesis using code_fast [of name p env c d] by simp
    next
      case False
      with n v show ?thesis using code_slow [of name p env d] by simp
    qed
  qed
  show "Preset_code env p (PStr name) dflt = Preset_code env p (PStr name) dflt'"
    by (simp only: shape)
  show "\<exists>t. fst (Preset_code env p (PStr name) dflt)
                    = Codes_get (PStr name) (getattr_p p name PNone) # t"
    by (simp add: shape)
  assume "\<not> truthy (codes env (PStr name) (getattr_p p name PNone))"
  then show "Preset_code env p (PStr name) dflt
                  = (Codes_get (PStr name) (getattr_p p name PNone)
                       # fst (calculated env name (getattr_p p name PNone)),
                     snd (calculated env name (getattr_p p name PNone)))"
    by (simp add: shape)
qed


lemma sample_codes_empty_string:
  "Preset_codes sample_env (Preset_init (PStr []) PNone PNone)
     = ([Codes_get (PStr ''fore'') (PStr []), Colr_call PNone (PStr []) PNone PNone],
        Inr ''[]'')"
  by (simp add: Preset_codes_def Preset_code_def Preset_init_def sample_env_def truthy_def
      calculated_def Let_def)

theorem absent_is_exactly_None_witness:
  "(0::nat) < length [Preset_init (PStr ''red'') PNone PNone,
                      Preset_init (PStr ''blue'') (PStr ''white'') PNone]
   \<and> (1::nat) < length [Preset_init (PStr ''red'') PNone PNone,
                      Preset_init (PStr ''blue'') (PStr ''white'') PNone]
   \<and> fst (snd (Preset_call sample_env
        [Preset_init (PStr ''red'') PNone PNone,
         Preset_init (PStr ''blue'') (PStr ''white'') PNone] 0 (PStr ''x'') (PStr []) PNone PNone))
       = [Colr_call (PStr ''x'') (PStr []) PNone PNone]
   \<and> map_of (Preset_as_dict (Preset_init (PStr []) PNone PNone)) ''fore'' = Some (PStr [])
   \<and> Codes_get (PStr ''fore'') (PStr [])
        \<in> set (fst (Preset_codes sample_env (Preset_init (PStr []) PNone PNone)))
   \<and> (case Preset_merge [Preset_init (PStr ''red'') PNone PNone,
         Preset_init (PStr ''blue'') (PStr ''white'') PNone] 0 1 (PStr []) PNone PNone
       of (r, h') \<Rightarrow> h' ! r = Preset_init (PStr []) (PStr ''white'') PNone)
   \<and> Preset_code sample_env (Preset_init (PStr []) PNone PNone) (PStr ''fore'') (PStr ''d'')
       = ([Codes_get (PStr ''fore'') (PStr []), Colr_call PNone (PStr []) PNone PNone],
          Inr (PStr ''[]''))"
  using sample_codes_empty_string absent_is_exactly_None
    [where self = 0 and other = 1 and env = sample_env and msg = "PStr ''x''"
       and f = "PStr []" and b = PNone and s = PNone and name = "''fore''"
       and p = "Preset_init (PStr []) PNone PNone" and dflt = "PStr ''d''" and dflt' = PNone
       and h = "[Preset_init (PStr ''red'') PNone PNone,
                 Preset_init (PStr ''blue'') (PStr ''white'') PNone]"]
  by (auto simp: Preset_init_def sample_env_def truthy_def calculated_def
      split: prod.splits)

end
